theory Spec2Isabelle
  imports Main
begin

section \<open>JavaScript values\<close>

text \<open>
  The values a handler of \<^verbatim>\<open>server.js\<close> meets: what \<^verbatim>\<open>JSON.parse\<close> builds
  for a request body, what the store hands back, and \<^verbatim>\<open>undefined\<close>. An object is the
  list of its own properties, looked up by key. Numbers are modelled by the integers
  (the safe integers of JavaScript, which print in plain decimal); a JSON number with a
  fraction or beyond that range is outside the model.
\<close>

datatype jsval =
    JUndefined
  | JNull
  | JBool bool
  | JNum int
  | JStr string
  | JArr "jsval list"
  | JObj "(string \<times> jsval) list"

datatype js_error = TypeError string | StoreError string

text \<open>\<^verbatim>\<open>ToBoolean\<close>: what \<^verbatim>\<open>!v\<close> and \<^verbatim>\<open>a || b\<close> test.\<close>

fun truthy :: "jsval \<Rightarrow> bool" where
  "truthy JUndefined = False"
| "truthy JNull = False"
| "truthy (JBool b) = b"
| "truthy (JNum n) = (n \<noteq> 0)"
| "truthy (JStr s) = (s \<noteq> [])"
| "truthy (JArr xs) = True"
| "truthy (JObj kvs) = True"

definition falsy :: "jsval \<Rightarrow> bool" where
  "falsy v = (\<not> truthy v)"

definition js_or :: "jsval \<Rightarrow> jsval \<Rightarrow> jsval" where
  "js_or a b = (if truthy a then a else b)"

text \<open>
  Reading a property, as destructuring \<^verbatim>\<open>const { id } = v\<close> and \<^verbatim>\<open>result.affectedRows\<close>
  do. On \<^verbatim>\<open>undefined\<close> and \<^verbatim>\<open>null\<close> it throws a TypeError. The keys the handlers read
  (\<^verbatim>\<open>id\<close>, \<^verbatim>\<open>card_name\<close>, \<^verbatim>\<open>card_pic\<close>, \<^verbatim>\<open>insertId\<close>, \<^verbatim>\<open>affectedRows\<close>) are on no
  prototype, so a primitive or an array gives \<^verbatim>\<open>undefined\<close> and an object gives its
  own property.
\<close>

fun get_prop :: "jsval \<Rightarrow> string \<Rightarrow> js_error + jsval" where
  "get_prop JUndefined k = Inl (TypeError (''Cannot read properties of undefined (reading '' @ k @ '')''))"
| "get_prop JNull k = Inl (TypeError (''Cannot read properties of null (reading '' @ k @ '')''))"
| "get_prop (JObj kvs) k = Inr (case map_of kvs k of None \<Rightarrow> JUndefined | Some v \<Rightarrow> v)"
| "get_prop v k = Inr JUndefined"

text \<open>Decimal printing of an integer.\<close>

fun show_nat :: "nat \<Rightarrow> string" where
  "show_nat n =
     (if n < 10 then [''0123456789'' ! n]
      else show_nat (n div 10) @ [''0123456789'' ! (n mod 10)])"

definition show_int :: "int \<Rightarrow> string" where
  "show_int i = (if i < 0 then CHR ''-'' # show_nat (nat (- i)) else show_nat (nat i))"

text \<open>
  \<^verbatim>\<open>Array.prototype.join\<close> on the converted elements: the first element that throws
  ends the conversion, otherwise the strings are separated by commas.
\<close>

fun join_results :: "(js_error + string) list \<Rightarrow> js_error + string" where
  "join_results [] = Inr []"
| "join_results [r] = r"
| "join_results (r # rs) =
     (case r of
        Inl e \<Rightarrow> Inl e
      | Inr s \<Rightarrow> (case join_results rs of Inl e \<Rightarrow> Inl e | Inr t \<Rightarrow> Inr (s @ '','' @ t)))"

text \<open>
  \<^verbatim>\<open>ToString\<close>, which a template literal \<^verbatim>\<open>`... ${v} ...`\<close> applies to \<^verbatim>\<open>v\<close>.
  A plain object prints through \<^verbatim>\<open>Object.prototype.toString\<close>, unless it has an own
  property \<^verbatim>\<open>toString\<close>: a parsed JSON value is never a function, so that property
  is skipped as not callable, \<^verbatim>\<open>valueOf\<close> returns the object itself (or is not callable
  either), and the conversion throws a TypeError. An array joins its elements, with
  \<^verbatim>\<open>undefined\<close> and \<^verbatim>\<open>null\<close> printed as the empty string.
\<close>

fun to_string :: "jsval \<Rightarrow> js_error + string" where
  "to_string JUndefined = Inr ''undefined''"
| "to_string JNull = Inr ''null''"
| "to_string (JBool b) = Inr (if b then ''true'' else ''false'')"
| "to_string (JNum n) = Inr (show_int n)"
| "to_string (JStr s) = Inr s"
| "to_string (JArr xs) =
     join_results (map (\<lambda>x. if x = JUndefined \<or> x = JNull then Inr [] else to_string x) xs)"
| "to_string (JObj kvs) =
     (if map_of kvs ''toString'' = None then Inr ''[object Object]''
      else Inl (TypeError ''Cannot convert object to primitive value''))"

declare show_nat.simps [simp del]

section \<open>Configuration and the qualified table name\<close>

text \<open>
  The two environment variables \<^verbatim>\<open>fqtn\<close> depends on; a variable that is not set
  reads as \<^verbatim>\<open>undefined\<close> (here \<open>None\<close>).
\<close>

record env =
  DB_NAME :: "string option"
  CARDS_TABLE_var :: "string option"

text \<open>\<^verbatim>\<open>const CARDS_TABLE = process.env.CARDS_TABLE || 'cards'\<close>: unset and empty both give the default.\<close>

definition CARDS_TABLE :: "env \<Rightarrow> string" where
  "CARDS_TABLE e =
     (case CARDS_TABLE_var e of
        None \<Rightarrow> ''cards''
      | Some t \<Rightarrow> if t = [] then ''cards'' else t)"

text \<open>The class \<^verbatim>\<open>\w\<close> of a regular expression without flags: ASCII letters, digits, underscore.\<close>

definition word_char :: "char \<Rightarrow> bool" where
  "word_char c =
     (c \<in> set ''abcdefghijklmnopqrstuvwxyzABCDEFGHIJKLMNOPQRSTUVWXYZ0123456789_'')"

text \<open>\<^verbatim>\<open>/^\w+$/.test(s)\<close>: one or more word characters and nothing else.\<close>

definition word_only :: "string \<Rightarrow> bool" where
  "word_only s = (s \<noteq> [] \<and> list_all word_char s)"

text \<open>
  \<^verbatim>\<open>fqtn()\<close> and its two local constants: the database prefix is used only when
  \<^verbatim>\<open>DB_NAME\<close> is set, non-empty and passes the pattern; the table name falls back to
  \<^verbatim>\<open>cards\<close> when \<^verbatim>\<open>CARDS_TABLE\<close> fails it.
\<close>

definition safeDb :: "env \<Rightarrow> string" where
  "safeDb e =
     (case DB_NAME e of
        None \<Rightarrow> []
      | Some d \<Rightarrow> if d \<noteq> [] \<and> word_only d then ''`'' @ d @ ''`.'' else [])"

definition safeTable :: "env \<Rightarrow> string" where
  "safeTable e =
     (if word_only (CARDS_TABLE e) then ''`'' @ CARDS_TABLE e @ ''`'' else ''`cards`'')"

definition fqtn :: "env \<Rightarrow> string" where
  "fqtn e = safeDb e @ safeTable e"

section \<open>Requests, responses and the store\<close>

text \<open>
  The object \<^verbatim>\<open>req\<close> as a handler sees it: \<open>body\<close> is \<^verbatim>\<open>req.body\<close>, set by
  \<^verbatim>\<open>express.json()\<close> (\<open>JUndefined\<close> when nothing was parsed), and \<open>params\<close> is
  \<^verbatim>\<open>req.params\<close>, filled in by the router.
\<close>

record request =
  http_method :: string
  originalUrl :: string
  body :: jsval
  params :: "(string \<times> string) list"

text \<open>
  What \<^verbatim>\<open>res\<close> ends up sending: \<^verbatim>\<open>res.status(n).json(v)\<close> is \<open>Response n (Json v)\<close>
  with \<open>v\<close> the value handed to \<^verbatim>\<open>res.json\<close>, and \<^verbatim>\<open>res.status(n).send()\<close> is
  \<open>Response n NoBody\<close>. \<open>ErrorPage\<close> is the page Express's own error handler
  renders when a middleware hands an error to \<^verbatim>\<open>next\<close>; the application registers no
  error handler of its own. A handler either replies or lets an exception escape.
\<close>

datatype payload = Json jsval | NoBody | ErrorPage

datatype response = Response nat payload

datatype outcome = Replied response | Escaped js_error

text \<open>
  The connection pool is outside the program: \<^verbatim>\<open>pool.execute(sql, values)\<close> is a
  parameter that takes the store's state, the statement text and the bound values, and
  gives back the new state with either the error the promise rejects with or the first
  element of the array it resolves to (the rows, or the result header). The world also
  records every statement issued and every line written by \<^verbatim>\<open>console.error\<close>.
\<close>

type_synonym 'db executor = "'db \<Rightarrow> string \<Rightarrow> jsval list \<Rightarrow> (js_error + jsval) \<times> 'db"

record 'db world =
  db :: 'db
  calls :: "(string \<times> jsval list) list"
  console :: "(string \<times> js_error) list"

definition pool_execute ::
  "'db executor \<Rightarrow> string \<Rightarrow> jsval list \<Rightarrow> 'db world \<Rightarrow> (js_error + jsval) \<times> 'db world" where
  "pool_execute ex sql vals w =
     (case ex (db w) sql vals of
        (r, d) \<Rightarrow> (r, w\<lparr>db := d, calls := calls w @ [(sql, vals)]\<rparr>))"

definition console_error :: "string \<Rightarrow> js_error \<Rightarrow> 'db world \<Rightarrow> 'db world" where
  "console_error tag err w = w\<lparr>console := console w @ [(tag, err)]\<rparr>"

definition message :: "string \<Rightarrow> payload" where
  "message m = Json (JObj [(''message'', JStr m)])"

section \<open>The handlers\<close>


text \<open>\<^verbatim>\<open>GET /allcards\<close>.\<close>

definition allcards :: "env \<Rightarrow> 'db executor \<Rightarrow> request \<Rightarrow> 'db world \<Rightarrow> outcome \<times> 'db world" where
  "allcards e ex req w =
     (case pool_execute ex (''SELECT * FROM '' @ fqtn e) [] w of
        (Inr rows, w1) \<Rightarrow> (Replied (Response 200 (Json rows)), w1)
      | (Inl err, w1) \<Rightarrow>
          (Replied (Response 500 (message ''Server error for allcards'')),
           console_error ''[allcards] error:'' err w1))"

text \<open>
  \<^verbatim>\<open>POST /addcard\<close>. The \<^verbatim>\<open>catch\<close> block builds its message from \<^verbatim>\<open>card_name\<close> with
  a template literal, so it throws in turn when that conversion does.
\<close>

definition addcard_catch :: "jsval \<Rightarrow> js_error \<Rightarrow> 'db world \<Rightarrow> outcome \<times> 'db world" where
  "addcard_catch card_name err w =
     (let w' = console_error ''[addcard] error:'' err w in
      case to_string card_name of
        Inl e \<Rightarrow> (Escaped e, w')
      | Inr s \<Rightarrow> (Replied (Response 500 (message (''Server error - could not add card '' @ s))), w'))"

definition addcard :: "env \<Rightarrow> 'db executor \<Rightarrow> request \<Rightarrow> 'db world \<Rightarrow> outcome \<times> 'db world" where
  "addcard e ex req w =
     (let b = js_or (body req) (JObj []) in
      case get_prop b ''card_name'' of
        Inl t \<Rightarrow> (Escaped t, w)
      | Inr card_name \<Rightarrow>
     (case get_prop b ''card_pic'' of
        Inl t \<Rightarrow> (Escaped t, w)
      | Inr card_pic \<Rightarrow>
      if falsy card_name \<or> falsy card_pic then
        (Replied (Response 400 (message ''card_name and card_pic are required'')), w)
      else
        let sql = ''INSERT INTO '' @ fqtn e @ '' (card_name, card_pic) VALUES (?, ?)'' in
        (case pool_execute ex sql [card_name, card_pic] w of
          (Inl err, w1) \<Rightarrow> addcard_catch card_name err w1
        | (Inr result, w1) \<Rightarrow>
            (case get_prop result ''insertId'' of
               Inl t \<Rightarrow> addcard_catch card_name t w1
             | Inr insertId \<Rightarrow>
                 (case to_string card_name of
                    Inl t \<Rightarrow> addcard_catch card_name t w1
                  | Inr s \<Rightarrow>
                      (Replied (Response 201 (Json (JObj
                         [(''id'', insertId), (''card_name'', card_name), (''card_pic'', card_pic),
                          (''message'', JStr (''Card '' @ s @ '' added successfully''))]))),
                       w1))))))"

text \<open>\<^verbatim>\<open>PUT /updatecard\<close>.\<close>

definition updatecard_catch :: "js_error \<Rightarrow> 'db world \<Rightarrow> outcome \<times> 'db world" where
  "updatecard_catch err w =
     (Replied (Response 500 (message ''Server error - could not update card'')),
      console_error ''[updatecard] error:'' err w)"

definition updatecard :: "env \<Rightarrow> 'db executor \<Rightarrow> request \<Rightarrow> 'db world \<Rightarrow> outcome \<times> 'db world" where
  "updatecard e ex req w =
     (let b = js_or (body req) (JObj []) in
      case get_prop b ''id'' of
        Inl t \<Rightarrow> (Escaped t, w)
      | Inr ident \<Rightarrow>
     (case get_prop b ''card_name'' of
        Inl t \<Rightarrow> (Escaped t, w)
      | Inr card_name \<Rightarrow>
     (case get_prop b ''card_pic'' of
        Inl t \<Rightarrow> (Escaped t, w)
      | Inr card_pic \<Rightarrow>
      if falsy ident then (Replied (Response 400 (message ''id is required'')), w)
      else if falsy card_name \<or> falsy card_pic then
        (Replied (Response 400 (message ''card_name and card_pic are required'')), w)
      else
        let sql = ''UPDATE '' @ fqtn e @ '' SET card_name = ?, card_pic = ? WHERE id = ?'' in
        (case pool_execute ex sql [card_name, card_pic, ident] w of
          (Inl err, w1) \<Rightarrow> updatecard_catch err w1
        | (Inr result, w1) \<Rightarrow>
            (case get_prop result ''affectedRows'' of
               Inl t \<Rightarrow> updatecard_catch t w1
             | Inr affectedRows \<Rightarrow>
                 if affectedRows = JNum 0 then
                   (case to_string ident of
                      Inl t \<Rightarrow> updatecard_catch t w1
                    | Inr s \<Rightarrow> (Replied (Response 404 (message (''No card found with id '' @ s))), w1))
                 else
                   (Replied (Response 200 (Json (JObj
                      [(''message'', JStr ''Card updated''), (''id'', ident),
                       (''card_name'', card_name), (''card_pic'', card_pic)]))),
                    w1))))))"

text \<open>
  \<^verbatim>\<open>DELETE /deletecard/:id\<close>. \<^verbatim>\<open>req.params\<close> is always an object, and a parameter in
  it is a string.
\<close>

definition deletecard_catch :: "js_error \<Rightarrow> 'db world \<Rightarrow> outcome \<times> 'db world" where
  "deletecard_catch err w =
     (Replied (Response 500 (message ''Server error - could not delete card'')),
      console_error ''[deletecard] error:'' err w)"

definition deletecard :: "env \<Rightarrow> 'db executor \<Rightarrow> request \<Rightarrow> 'db world \<Rightarrow> outcome \<times> 'db world" where
  "deletecard e ex req w =
     (let ident = (case map_of (params req) ''id'' of None \<Rightarrow> JUndefined | Some s \<Rightarrow> JStr s) in
      if falsy ident then (Replied (Response 400 (message ''id is required'')), w)
      else
        let sql = ''DELETE FROM '' @ fqtn e @ '' WHERE id = ?'' in
        (case pool_execute ex sql [ident] w of
          (Inl err, w1) \<Rightarrow> deletecard_catch err w1
        | (Inr result, w1) \<Rightarrow>
            (case get_prop result ''affectedRows'' of
               Inl t \<Rightarrow> deletecard_catch t w1
             | Inr affectedRows \<Rightarrow>
                 if affectedRows = JNum 0 then
                   (case to_string ident of
                      Inl t \<Rightarrow> deletecard_catch t w1
                    | Inr s \<Rightarrow> (Replied (Response 404 (message (''No card found with id '' @ s))), w1))
                 else (Replied (Response 204 NoBody), w1))))"


section \<open>The application: middleware and routing\<close>









section \<open>Vocabulary of the properties\<close>

text \<open>The statements a handler issued on top of those the world already recorded.\<close>

definition issued :: "('db world \<Rightarrow> outcome \<times> 'db world) \<Rightarrow> 'db world \<Rightarrow> (string \<times> jsval list) list" where
  "issued h w = drop (length (calls w)) (calls (snd (h w)))"

text \<open>
  The value a request supplies for a body field: the own property of a body that is an
  object, \<^verbatim>\<open>undefined\<close> when the key or the whole body is missing.
\<close>

definition supplied :: "request \<Rightarrow> string \<Rightarrow> jsval" where
  "supplied req k =
     (case body req of
        JObj kvs \<Rightarrow> (case map_of kvs k of None \<Rightarrow> JUndefined | Some v \<Rightarrow> v)
      | _ \<Rightarrow> JUndefined)"

section \<open>A store and a matcher to run the handlers on\<close>

text \<open>
  The theorems hold for every executor and every matcher. To run the handlers on concrete
  requests, \<open>table_execute\<close> is a small table in memory, rows of identifier, name and
  picture, that answers the four statements of the service. A bound identifier selects
  the rows whose identifier it prints as.
\<close>

type_synonym table = "(nat \<times> jsval \<times> jsval) list"

definition selects :: "jsval \<Rightarrow> nat \<times> jsval \<times> jsval \<Rightarrow> bool" where
  "selects i r = (to_string i = Inr (show_nat (fst r)))"

definition header :: "nat \<Rightarrow> nat \<Rightarrow> jsval" where
  "header affected inserted =
     JObj [(''affectedRows'', JNum (int affected)), (''insertId'', JNum (int inserted))]"

definition table_execute :: "env \<Rightarrow> table executor" where
  "table_execute e rows sql vals =
     (if sql = ''SELECT * FROM '' @ fqtn e then
        (Inr (JArr (map (\<lambda>(i, n, p).
            JObj [(''id'', JNum (int i)), (''card_name'', n), (''card_pic'', p)]) rows)), rows)
      else if sql = ''INSERT INTO '' @ fqtn e @ '' (card_name, card_pic) VALUES (?, ?)'' then
        (case vals of
           [n, p] \<Rightarrow>
             (let i = Suc (fold max (map fst rows) 0)
              in (Inr (header 1 i), rows @ [(i, n, p)]))
         | _ \<Rightarrow> (Inl (StoreError ''ER_WRONG_ARGUMENTS''), rows))
      else if sql = ''UPDATE '' @ fqtn e @ '' SET card_name = ?, card_pic = ? WHERE id = ?'' then
        (case vals of
           [n, p, i] \<Rightarrow>
             (Inr (header (length (filter (selects i) rows)) 0),
              map (\<lambda>r. if selects i r then (fst r, n, p) else r) rows)
         | _ \<Rightarrow> (Inl (StoreError ''ER_WRONG_ARGUMENTS''), rows))
      else if sql = ''DELETE FROM '' @ fqtn e @ '' WHERE id = ?'' then
        (case vals of
           [i] \<Rightarrow>
             (Inr (header (length (filter (selects i) rows)) 0),
              filter (\<lambda>r. \<not> selects i r) rows)
         | _ \<Rightarrow> (Inl (StoreError ''ER_WRONG_ARGUMENTS''), rows))
      else (Inl (StoreError ''ER_PARSE_ERROR''), rows))"

text \<open>A store that is down: every statement is rejected.\<close>

definition refusing_execute :: "unit executor" where
  "refusing_execute d sql vals = (Inl (StoreError ''ECONNREFUSED''), d)"


definition env0 :: env where
  "env0 = \<lparr>DB_NAME = None, CARDS_TABLE_var = None\<rparr>"

definition world0 :: "'db \<Rightarrow> 'db world" where
  "world0 d = \<lparr>db = d, calls = [], console = []\<rparr>"

section \<open>Supporting lemmas\<close>

text \<open>
  Destructuring the body never throws: \<^verbatim>\<open>req.body || {}\<close> is an object whenever the
  body is \<^verbatim>\<open>undefined\<close> or \<^verbatim>\<open>null\<close>, and each field is the value the request supplies.
\<close>

lemma get_prop_body: "get_prop (js_or (body req) (JObj [])) k = Inr (supplied req k)"
  by (cases "body req") (simp_all add: js_or_def supplied_def)

lemma updatecard_id_check:
  "falsy (supplied req ''id'') \<Longrightarrow>
     updatecard e ex req w = (Replied (Response 400 (message ''id is required'')), w)"
  unfolding updatecard_def Let_def get_prop_body by simp

lemma updatecard_not_id_error:
  "\<not> falsy (supplied req ''id'') \<Longrightarrow>
     fst (updatecard e ex req w) \<noteq> Replied (Response 400 (message ''id is required''))"
  unfolding updatecard_def Let_def get_prop_body
  by (auto simp: message_def updatecard_catch_def split: prod.splits sum.splits)

section \<open>Validation\<close>

text \<open>
  C5. A Create request whose \<^verbatim>\<open>card_name\<close> or \<^verbatim>\<open>card_pic\<close> is missing or falsy is
  answered 400 with the message naming both fields, and the world is left as it was:
  no statement is issued, the store and the console are untouched.
\<close>

theorem addcard_rejects_missing_field:
  assumes "falsy (supplied req ''card_name'') \<or> falsy (supplied req ''card_pic'')"
  shows "addcard e ex req w =
           (Replied (Response 400 (message ''card_name and card_pic are required'')), w)
         \<and> issued (addcard e ex req) w = []"
proof -
  have "addcard e ex req w =
          (Replied (Response 400 (message ''card_name and card_pic are required'')), w)"
    using assms unfolding addcard_def Let_def get_prop_body by auto
  then show ?thesis by (simp add: issued_def)
qed

theorem addcard_rejects_missing_field_witness:
  "falsy (supplied \<lparr>http_method = ''POST'', originalUrl = ''/addcard'',
                     body = JObj [(''card_pic'', JStr ''x'')], params = []\<rparr> ''card_name'')
   \<and> addcard env0 (table_execute env0)
        \<lparr>http_method = ''POST'', originalUrl = ''/addcard'',
          body = JObj [(''card_pic'', JStr ''x'')], params = []\<rparr>
        (world0 [(1, JStr ''Ace'', JStr ''ace.png'')])
      = (Replied (Response 400 (message ''card_name and card_pic are required'')),
         world0 [(1, JStr ''Ace'', JStr ''ace.png'')])"
proof -
  let ?r = "\<lparr>http_method = ''POST'', originalUrl = ''/addcard'',
             body = JObj [(''card_pic'', JStr ''x'')], params = []\<rparr>"
  have h: "falsy (supplied ?r ''card_name'')"
    by (simp add: supplied_def falsy_def)
  from addcard_rejects_missing_field [of ?r, OF disjI1, OF h]
  show ?thesis using h by blast
qed

text \<open>
  C6. An Update request is validated in two steps, neither of which touches the world:
  a missing or falsy \<^verbatim>\<open>id\<close> is answered 400 with the message about the id, whatever
  the other fields are; only when the id passes are \<^verbatim>\<open>card_name\<close> and \<^verbatim>\<open>card_pic\<close>
  checked, and a missing or falsy one is answered 400 with the message naming both.
\<close>

theorem updatecard_validation_order:
  "(falsy (supplied req ''id'') \<longrightarrow>
      updatecard e ex req w = (Replied (Response 400 (message ''id is required'')), w))
   \<and> (truthy (supplied req ''id'')
        \<and> (falsy (supplied req ''card_name'') \<or> falsy (supplied req ''card_pic'')) \<longrightarrow>
      updatecard e ex req w =
        (Replied (Response 400 (message ''card_name and card_pic are required'')), w))"
  unfolding updatecard_def Let_def get_prop_body by (auto simp: falsy_def)

theorem updatecard_validation_order_witness:
  "updatecard env0 (table_execute env0)
     \<lparr>http_method = ''PUT'', originalUrl = ''/updatecard'',
       body = JObj [(''card_name'', JStr ''Ace2'')], params = []\<rparr>
     (world0 [(1, JStr ''Ace'', JStr ''ace.png'')])
   = (Replied (Response 400 (message ''id is required'')),
      world0 [(1, JStr ''Ace'', JStr ''ace.png'')])
   \<and> updatecard env0 (table_execute env0)
     \<lparr>http_method = ''PUT'', originalUrl = ''/updatecard'',
       body = JObj [(''id'', JNum 1), (''card_name'', JStr ''Ace2'')], params = []\<rparr>
     (world0 [(1, JStr ''Ace'', JStr ''ace.png'')])
   = (Replied (Response 400 (message ''card_name and card_pic are required'')),
      world0 [(1, JStr ''Ace'', JStr ''ace.png'')])"
proof -
  let ?a = "\<lparr>http_method = ''PUT'', originalUrl = ''/updatecard'',
             body = JObj [(''card_name'', JStr ''Ace2'')], params = []\<rparr>"
  let ?b = "\<lparr>http_method = ''PUT'', originalUrl = ''/updatecard'',
             body = JObj [(''id'', JNum 1), (''card_name'', JStr ''Ace2'')], params = []\<rparr>"
  have ha: "falsy (supplied ?a ''id'')"
    by (simp add: supplied_def falsy_def)
  have hb: "truthy (supplied ?b ''id'')
            \<and> (falsy (supplied ?b ''card_name'') \<or> falsy (supplied ?b ''card_pic''))"
    by (simp add: supplied_def falsy_def)
  from updatecard_validation_order [of ?a] ha updatecard_validation_order [of ?b] hb
  show ?thesis by blast
qed

text \<open>
  C9. The id check of Update tests the value, not the key: a body whose \<^verbatim>\<open>id\<close> is
  present but is \<^verbatim>\<open>0\<close>, the empty string, \<^verbatim>\<open>null\<close> or \<^verbatim>\<open>false\<close> is answered 400
  with the message about the id, and a present id draws that answer exactly when it
  is falsy.
\<close>

theorem updatecard_falsy_id_rejected:
  assumes "body req = JObj kvs" and "map_of kvs ''id'' = Some v"
  shows "(v \<in> {JNum 0, JStr [], JNull, JBool False} \<longrightarrow>
            updatecard e ex req w = (Replied (Response 400 (message ''id is required'')), w))
         \<and> ((fst (updatecard e ex req w) = Replied (Response 400 (message ''id is required'')))
              = falsy v)"
proof -
  have s: "supplied req ''id'' = v"
    using assms by (simp add: supplied_def)
  have a: "falsy v \<Longrightarrow>
             updatecard e ex req w = (Replied (Response 400 (message ''id is required'')), w)"
    using updatecard_id_check [of req e ex w] s by simp
  have b: "\<not> falsy v \<Longrightarrow>
             fst (updatecard e ex req w) \<noteq> Replied (Response 400 (message ''id is required''))"
    using updatecard_not_id_error [of req e ex w] s by simp
  have c: "v \<in> {JNum 0, JStr [], JNull, JBool False} \<Longrightarrow> falsy v"
    by (auto simp: falsy_def)
  show ?thesis using a b c by (cases "falsy v") auto
qed

theorem updatecard_falsy_id_rejected_witness:
  "updatecard env0 (table_execute env0)
     \<lparr>http_method = ''PUT'', originalUrl = ''/updatecard'',
       body = JObj [(''id'', JNum 0), (''card_name'', JStr ''Ace2''), (''card_pic'', JStr ''ace2.png'')],
       params = []\<rparr>
     (world0 [(0, JStr ''Ace'', JStr ''ace.png'')])
   = (Replied (Response 400 (message ''id is required'')),
      world0 [(0, JStr ''Ace'', JStr ''ace.png'')])"
proof -
  let ?kvs = "[(''id'', JNum 0), (''card_name'', JStr ''Ace2''), (''card_pic'', JStr ''ace2.png'')]"
  let ?r = "\<lparr>http_method = ''PUT'', originalUrl = ''/updatecard'', body = JObj ?kvs, params = []\<rparr>"
  have h1: "body ?r = JObj ?kvs" by simp
  have h2: "map_of ?kvs ''id'' = Some (JNum 0)" by simp
  from updatecard_falsy_id_rejected [OF h1 h2]
  show ?thesis by blast
qed

text \<open>
  C10. A Create or Update request that arrives with no parsed body (\<^verbatim>\<open>req.body\<close> is
  \<^verbatim>\<open>undefined\<close>) does not throw in the destructuring: the body defaults to the empty
  object, every field read from it is \<^verbatim>\<open>undefined\<close>, and the handler answers with its
  first validation error, 400, leaving the world as it was.
\<close>

theorem absent_body_is_bad_request:
  assumes "body req = JUndefined"
  shows "js_or (body req) (JObj []) = JObj []
         \<and> get_prop (js_or (body req) (JObj [])) k = Inr JUndefined
         \<and> addcard e ex req w =
             (Replied (Response 400 (message ''card_name and card_pic are required'')), w)
         \<and> updatecard e ex req w = (Replied (Response 400 (message ''id is required'')), w)"
proof -
  have s: "supplied req f = JUndefined" for f
    using assms by (simp add: supplied_def)
  have a: "js_or (body req) (JObj []) = JObj []"
    using assms by (simp add: js_or_def)
  have b: "get_prop (js_or (body req) (JObj [])) k = Inr JUndefined"
    by (simp add: a)
  have c: "addcard e ex req w =
             (Replied (Response 400 (message ''card_name and card_pic are required'')), w)"
    unfolding addcard_def Let_def get_prop_body s by (simp add: falsy_def)
  have d: "updatecard e ex req w = (Replied (Response 400 (message ''id is required'')), w)"
    by (rule updatecard_id_check) (simp add: s falsy_def)
  show ?thesis using a b c d by blast
qed

theorem absent_body_is_bad_request_witness:
  "addcard env0 refusing_execute
     \<lparr>http_method = ''POST'', originalUrl = ''/addcard'', body = JUndefined, params = []\<rparr>
     (world0 ())
   = (Replied (Response 400 (message ''card_name and card_pic are required'')), world0 ())
   \<and> updatecard env0 refusing_execute
     \<lparr>http_method = ''PUT'', originalUrl = ''/updatecard'', body = JUndefined, params = []\<rparr>
     (world0 ())
   = (Replied (Response 400 (message ''id is required'')), world0 ())"
proof -
  let ?a = "\<lparr>http_method = ''POST'', originalUrl = ''/addcard'', body = JUndefined, params = []\<rparr>"
  let ?b = "\<lparr>http_method = ''PUT'', originalUrl = ''/updatecard'', body = JUndefined, params = []\<rparr>"
  have ha: "body ?a = JUndefined" and hb: "body ?b = JUndefined" by simp_all
  from absent_body_is_bad_request [OF ha] absent_body_is_bad_request [OF hb]
  show ?thesis by blast
qed

section \<open>Unmatched routes\<close>






section \<open>Delete\<close>

text \<open>
  What Delete does once the store has resolved the statement: the answer depends on
  \<^verbatim>\<open>result.affectedRows\<close> alone, and the world holds the store's new state and the
  one statement issued, with the id as its only bound value.
\<close>

lemma deletecard_resolved:
  assumes "map_of (params req) ''id'' = Some s" and "s \<noteq> []"
      and "ex (db w) (''DELETE FROM '' @ fqtn e @ '' WHERE id = ?'') [JStr s] = (Inr result, d)"
      and "get_prop result ''affectedRows'' = Inr n"
  shows "deletecard e ex req w =
           (if n = JNum 0 then Replied (Response 404 (message (''No card found with id '' @ s)))
            else Replied (Response 204 NoBody),
            w\<lparr>db := d,
              calls := calls w @ [(''DELETE FROM '' @ fqtn e @ '' WHERE id = ?'', [JStr s])]\<rparr>)"
  using assms by (simp add: deletecard_def Let_def falsy_def pool_execute_def)

lemma deletecard_twice:
  assumes "map_of (params req) ''id'' = Some s" and "s \<noteq> []"
      and "ex (db w) (''DELETE FROM '' @ fqtn e @ '' WHERE id = ?'') [JStr s] = (Inr r1, d1)"
      and "get_prop r1 ''affectedRows'' = Inr n1" and "n1 \<noteq> JNum 0"
      and "ex d1 (''DELETE FROM '' @ fqtn e @ '' WHERE id = ?'') [JStr s] = (Inr r2, d2)"
      and "get_prop r2 ''affectedRows'' = Inr (JNum 0)"
  shows "fst (deletecard e ex req w) = Replied (Response 204 NoBody)
         \<and> fst (deletecard e ex req (snd (deletecard e ex req w))) =
              Replied (Response 404 (message (''No card found with id '' @ s)))"
proof -
  let ?sql = "''DELETE FROM '' @ fqtn e @ '' WHERE id = ?''"
  have first: "deletecard e ex req w =
                 (Replied (Response 204 NoBody), w\<lparr>db := d1, calls := calls w @ [(?sql, [JStr s])]\<rparr>)"
    using deletecard_resolved [of req s ex w e r1 d1 n1, OF assms(1-4)] assms(5) by simp
  have "ex (db (snd (deletecard e ex req w))) ?sql [JStr s] = (Inr r2, d2)"
    using assms(6) by (simp add: first)
  from deletecard_resolved [of req s ex "snd (deletecard e ex req w)" e r2 d2 "JNum 0",
         OF assms(1,2) this assms(7)]
  show ?thesis by (simp add: first)
qed

text \<open>On the table in memory: deleting a card that is there, twice.\<close>

lemma table_delete:
  "table_execute e rows (''DELETE FROM '' @ fqtn e @ '' WHERE id = ?'') [i] =
     (Inr (header (length (filter (selects i) rows)) 0), filter (\<lambda>r. \<not> selects i r) rows)"
  by (simp add: table_execute_def)

lemma header_affectedRows: "get_prop (header a i) ''affectedRows'' = Inr (JNum (int a))"
  by (simp add: header_def)

lemma table_delete_twice:
  assumes "map_of (params req) ''id'' = Some s" and "s \<noteq> []"
      and "\<exists>r \<in> set (db w). selects (JStr s) r"
  shows "fst (deletecard e (table_execute e) req w) = Replied (Response 204 NoBody)
         \<and> fst (deletecard e (table_execute e) req (snd (deletecard e (table_execute e) req w))) =
              Replied (Response 404 (message (''No card found with id '' @ s)))"
proof -
  let ?sql = "''DELETE FROM '' @ fqtn e @ '' WHERE id = ?''"
  let ?k = "length (filter (selects (JStr s)) (db w))"
  let ?d1 = "filter (\<lambda>r. \<not> selects (JStr s) r) (db w)"
  have pos: "?k \<noteq> 0"
    using assms(3) by (auto simp: filter_empty_conv)
  have e1: "table_execute e (db w) ?sql [JStr s] = (Inr (header ?k 0), ?d1)"
    by (rule table_delete)
  have none: "filter (selects (JStr s)) ?d1 = []"
    by (simp add: filter_empty_conv)
  have e2: "table_execute e ?d1 ?sql [JStr s] = (Inr (header 0 0), filter (\<lambda>r. \<not> selects (JStr s) r) ?d1)"
    using table_delete [of e ?d1 "JStr s"] by (simp only: none list.size)
  have n1: "JNum (int ?k) \<noteq> JNum 0" using pos by simp
  have g2: "get_prop (header 0 0) ''affectedRows'' = Inr (JNum 0)"
    by (simp add: header_def)
  from deletecard_twice [of req s "table_execute e" w e "header ?k 0" ?d1 "JNum (int ?k)" "header 0 0",
         OF assms(1,2) e1 header_affectedRows n1 e2 g2]
  show ?thesis .
qed

text \<open>
  C4. For a Delete request whose \<^verbatim>\<open>id\<close> parameter is present (a non-empty string, as
  the route delivers it) and whose statement the store resolves: the answer is 404 when
  \<^verbatim>\<open>affectedRows\<close> is \<^verbatim>\<open>0\<close> and 204 with no body otherwise. Hence, on a store that
  reports a row affected the first time and none the second, as it does for a card that
  existed, deleting once is answered 204 and deleting the same id again 404.
\<close>

theorem deletecard_status:
  assumes "map_of (params req) ''id'' = Some s" and "s \<noteq> []"
  shows "(\<forall>result d n.
            ex (db w) (''DELETE FROM '' @ fqtn e @ '' WHERE id = ?'') [JStr s] = (Inr result, d)
            \<and> get_prop result ''affectedRows'' = Inr n \<longrightarrow>
            fst (deletecard e ex req w) =
              (if n = JNum 0 then Replied (Response 404 (message (''No card found with id '' @ s)))
               else Replied (Response 204 NoBody))
            \<and> db (snd (deletecard e ex req w)) = d)
         \<and> (\<forall>r1 d1 n1 r2 d2.
            ex (db w) (''DELETE FROM '' @ fqtn e @ '' WHERE id = ?'') [JStr s] = (Inr r1, d1)
            \<and> get_prop r1 ''affectedRows'' = Inr n1 \<and> n1 \<noteq> JNum 0
            \<and> ex d1 (''DELETE FROM '' @ fqtn e @ '' WHERE id = ?'') [JStr s] = (Inr r2, d2)
            \<and> get_prop r2 ''affectedRows'' = Inr (JNum 0) \<longrightarrow>
            fst (deletecard e ex req w) = Replied (Response 204 NoBody)
            \<and> fst (deletecard e ex req (snd (deletecard e ex req w))) =
                Replied (Response 404 (message (''No card found with id '' @ s))))"
proof (intro conjI allI impI)
  fix result d n
  assume h: "ex (db w) (''DELETE FROM '' @ fqtn e @ '' WHERE id = ?'') [JStr s] = (Inr result, d)
             \<and> get_prop result ''affectedRows'' = Inr n"
  from deletecard_resolved [of req s ex w e result d n, OF assms] h
  show "fst (deletecard e ex req w) =
          (if n = JNum 0 then Replied (Response 404 (message (''No card found with id '' @ s)))
           else Replied (Response 204 NoBody))"
    and "db (snd (deletecard e ex req w)) = d"
    by simp_all
next
  fix r1 d1 n1 r2 d2
  assume h: "ex (db w) (''DELETE FROM '' @ fqtn e @ '' WHERE id = ?'') [JStr s] = (Inr r1, d1)
            \<and> get_prop r1 ''affectedRows'' = Inr n1 \<and> n1 \<noteq> JNum 0
            \<and> ex d1 (''DELETE FROM '' @ fqtn e @ '' WHERE id = ?'') [JStr s] = (Inr r2, d2)
            \<and> get_prop r2 ''affectedRows'' = Inr (JNum 0)"
  then have both: "fst (deletecard e ex req w) = Replied (Response 204 NoBody)
         \<and> fst (deletecard e ex req (snd (deletecard e ex req w))) =
              Replied (Response 404 (message (''No card found with id '' @ s)))"
    using deletecard_twice [of req s ex w e r1 d1 n1 r2 d2, OF assms] by blast
  from both show "fst (deletecard e ex req w) = Replied (Response 204 NoBody)" ..
  from both show "fst (deletecard e ex req (snd (deletecard e ex req w))) =
          Replied (Response 404 (message (''No card found with id '' @ s)))" ..
qed

theorem deletecard_status_witness:
  "fst (deletecard env0 (table_execute env0)
         \<lparr>http_method = ''DELETE'', originalUrl = ''/deletecard/1'', body = JUndefined,
           params = [(''id'', ''1'')]\<rparr>
         (world0 [(1, JStr ''Ace'', JStr ''ace.png'')]))
     = Replied (Response 204 NoBody)
   \<and> fst (deletecard env0 (table_execute env0)
         \<lparr>http_method = ''DELETE'', originalUrl = ''/deletecard/1'', body = JUndefined,
           params = [(''id'', ''1'')]\<rparr>
         (snd (deletecard env0 (table_execute env0)
            \<lparr>http_method = ''DELETE'', originalUrl = ''/deletecard/1'', body = JUndefined,
              params = [(''id'', ''1'')]\<rparr>
            (world0 [(1, JStr ''Ace'', JStr ''ace.png'')]))))
     = Replied (Response 404 (message ''No card found with id 1''))"
proof -
  let ?r = "\<lparr>http_method = ''DELETE'', originalUrl = ''/deletecard/1'', body = JUndefined,
             params = [(''id'', ''1'')]\<rparr>"
  let ?w = "world0 [(1::nat, JStr ''Ace'', JStr ''ace.png'')]"
  let ?sql = "''DELETE FROM '' @ fqtn env0 @ '' WHERE id = ?''"
  have h1: "map_of (params ?r) ''id'' = Some ''1''" and h2: "''1'' \<noteq> []" by simp_all
  have e1: "table_execute env0 (db ?w) ?sql [JStr ''1''] = (Inr (header 1 0), [])"
    by (subst table_delete) (simp add: world0_def selects_def show_nat.simps)
  have e2: "table_execute env0 [] ?sql [JStr ''1''] = (Inr (header 0 0), [])"
    by (subst table_delete) simp
  have g1: "get_prop (header 1 0) ''affectedRows'' = Inr (JNum 1)"
    and g2: "get_prop (header 0 0) ''affectedRows'' = Inr (JNum 0)"
    by (simp_all add: header_def)
  have ne: "JNum 1 \<noteq> JNum 0" by simp
  have pre: "table_execute env0 (db ?w) ?sql [JStr ''1''] = (Inr (header 1 0), [])
             \<and> get_prop (header 1 0) ''affectedRows'' = Inr (JNum 1) \<and> JNum 1 \<noteq> JNum 0
             \<and> table_execute env0 [] ?sql [JStr ''1''] = (Inr (header 0 0), [])
             \<and> get_prop (header 0 0) ''affectedRows'' = Inr (JNum 0)"
    using e1 e2 g1 g2 ne by blast
  from deletecard_status [OF h1 h2, of "table_execute env0" ?w env0, THEN conjunct2,
         rule_format, of "header 1 0" "[]" "JNum 1" "header 0 0" "[]", OF pre]
  show ?thesis by simp
qed

section \<open>Statement text and bound values\<close>

text \<open>
  The statements each handler issues: none when validation fails, otherwise exactly one,
  whose text is built from the configuration and whose bound values are the values of
  the request.
\<close>

lemma addcard_issued:
  "issued (addcard e ex req) w =
     (if falsy (supplied req ''card_name'') \<or> falsy (supplied req ''card_pic'') then []
      else [(''INSERT INTO '' @ fqtn e @ '' (card_name, card_pic) VALUES (?, ?)'',
             [supplied req ''card_name'', supplied req ''card_pic''])])"
  unfolding addcard_def Let_def get_prop_body issued_def
  by (cases "ex (db w) (''INSERT INTO '' @ fqtn e @ '' (card_name, card_pic) VALUES (?, ?)'')
                [supplied req ''card_name'', supplied req ''card_pic'']")
     (simp add: pool_execute_def addcard_catch_def console_error_def Let_def split: sum.splits)

lemma updatecard_issued:
  "issued (updatecard e ex req) w =
     (if falsy (supplied req ''id'') \<or> falsy (supplied req ''card_name'')
         \<or> falsy (supplied req ''card_pic'') then []
      else [(''UPDATE '' @ fqtn e @ '' SET card_name = ?, card_pic = ? WHERE id = ?'',
             [supplied req ''card_name'', supplied req ''card_pic'', supplied req ''id''])])"
  unfolding updatecard_def Let_def get_prop_body issued_def
  by (cases "ex (db w) (''UPDATE '' @ fqtn e @ '' SET card_name = ?, card_pic = ? WHERE id = ?'')
                [supplied req ''card_name'', supplied req ''card_pic'', supplied req ''id'']")
     (simp add: pool_execute_def updatecard_catch_def console_error_def split: sum.splits)

lemma deletecard_issued:
  "issued (deletecard e ex req) w =
     (case map_of (params req) ''id'' of
        None \<Rightarrow> []
      | Some s \<Rightarrow> if s = [] then []
                  else [(''DELETE FROM '' @ fqtn e @ '' WHERE id = ?'', [JStr s])])"
proof (cases "map_of (params req) ''id''")
  case None
  then show ?thesis by (simp add: deletecard_def issued_def falsy_def)
next
  case (Some s)
  then show ?thesis
    unfolding deletecard_def Let_def issued_def
    by (cases "ex (db w) (''DELETE FROM '' @ fqtn e @ '' WHERE id = ?'') [JStr s]")
       (simp add: falsy_def pool_execute_def deletecard_catch_def console_error_def
             split: sum.splits)
qed

text \<open>
  C1. Create, Update and Delete each issue at most one statement. Its text is fixed by
  the configured table name; \<^verbatim>\<open>card_name\<close>, \<^verbatim>\<open>card_pic\<close> and \<^verbatim>\<open>id\<close> occur only in the
  list of bound values. So for any two requests, any two stores and any two worlds, the
  texts issued by the same handler are the same.
\<close>

theorem sql_text_independent_of_values:
  "issued (addcard e ex req) w =
     (if falsy (supplied req ''card_name'') \<or> falsy (supplied req ''card_pic'') then []
      else [(''INSERT INTO '' @ fqtn e @ '' (card_name, card_pic) VALUES (?, ?)'',
             [supplied req ''card_name'', supplied req ''card_pic''])])
   \<and> issued (updatecard e ex req) w =
     (if falsy (supplied req ''id'') \<or> falsy (supplied req ''card_name'')
         \<or> falsy (supplied req ''card_pic'') then []
      else [(''UPDATE '' @ fqtn e @ '' SET card_name = ?, card_pic = ? WHERE id = ?'',
             [supplied req ''card_name'', supplied req ''card_pic'', supplied req ''id''])])
   \<and> issued (deletecard e ex req) w =
     (case map_of (params req) ''id'' of
        None \<Rightarrow> []
      | Some s \<Rightarrow> if s = [] then []
                  else [(''DELETE FROM '' @ fqtn e @ '' WHERE id = ?'', [JStr s])])
   \<and> (\<forall>c \<in> set (issued (addcard e ex req) w).
        \<forall>c' \<in> set (issued (addcard e ex' req') w'). fst c = fst c')
   \<and> (\<forall>c \<in> set (issued (updatecard e ex req) w).
        \<forall>c' \<in> set (issued (updatecard e ex' req') w'). fst c = fst c')
   \<and> (\<forall>c \<in> set (issued (deletecard e ex req) w).
        \<forall>c' \<in> set (issued (deletecard e ex' req') w'). fst c = fst c')"
proof (intro conjI)
  show "\<forall>c \<in> set (issued (addcard e ex req) w).
        \<forall>c' \<in> set (issued (addcard e ex' req') w'). fst c = fst c'"
    by (simp add: addcard_issued)
  show "\<forall>c \<in> set (issued (updatecard e ex req) w).
        \<forall>c' \<in> set (issued (updatecard e ex' req') w'). fst c = fst c'"
    by (simp add: updatecard_issued)
  show "\<forall>c \<in> set (issued (deletecard e ex req) w).
        \<forall>c' \<in> set (issued (deletecard e ex' req') w'). fst c = fst c'"
    by (auto simp: deletecard_issued split: option.splits if_splits)
qed (rule addcard_issued updatecard_issued deletecard_issued)+

theorem sql_text_independent_of_values_witness:
  "issued (addcard env0 (table_execute env0)
      \<lparr>http_method = ''POST'', originalUrl = ''/addcard'',
        body = JObj [(''card_name'', JStr ''Ace''), (''card_pic'', JStr ''ace.png'')], params = []\<rparr>)
      (world0 [])
   = [(''INSERT INTO `cards` (card_name, card_pic) VALUES (?, ?)'', [JStr ''Ace'', JStr ''ace.png''])]
   \<and> issued (addcard env0 (table_execute env0)
      \<lparr>http_method = ''POST'', originalUrl = ''/addcard'',
        body = JObj [(''card_name'', JStr ''x); DROP TABLE cards; --''), (''card_pic'', JStr ''`'')],
        params = []\<rparr>)
      (world0 [])
   = [(''INSERT INTO `cards` (card_name, card_pic) VALUES (?, ?)'',
       [JStr ''x); DROP TABLE cards; --'', JStr ''`''])]"
proof -
  let ?a = "\<lparr>http_method = ''POST'', originalUrl = ''/addcard'',
        body = JObj [(''card_name'', JStr ''Ace''), (''card_pic'', JStr ''ace.png'')], params = []\<rparr>"
  let ?b = "\<lparr>http_method = ''POST'', originalUrl = ''/addcard'',
        body = JObj [(''card_name'', JStr ''x); DROP TABLE cards; --''), (''card_pic'', JStr ''`'')],
        params = []\<rparr>"
  have f: "fqtn env0 = ''`cards`''"
    by (simp add: fqtn_def safeDb_def safeTable_def env0_def CARDS_TABLE_def word_only_def word_char_def)
  from sql_text_independent_of_values [of env0 "table_execute env0" ?a "world0 []", THEN conjunct1]
       sql_text_independent_of_values [of env0 "table_execute env0" ?b "world0 []", THEN conjunct1]
  show ?thesis by (simp add: f supplied_def falsy_def)
qed

section \<open>The qualified table name\<close>

lemma word_only_cards: "word_only ''cards''"
  by (simp add: word_only_def word_char_def)

lemma safeTable_chars: "c \<in> set (safeTable e) \<Longrightarrow> word_char c \<or> c = CHR ''`''"
proof (cases "word_only (CARDS_TABLE e)")
  case True
  assume "c \<in> set (safeTable e)"
  with True show ?thesis
    by (auto simp: safeTable_def word_only_def list_all_iff)
next
  case False
  assume "c \<in> set (safeTable e)"
  with False have "c = CHR ''`'' \<or> c \<in> set ''cards''"
    by (auto simp: safeTable_def)
  moreover have "list_all word_char ''cards''"
    using word_only_cards by (simp only: word_only_def)
  ultimately show ?thesis
    by (auto simp only: list_all_iff)
qed

lemma safeDb_chars: "c \<in> set (safeDb e) \<Longrightarrow> word_char c \<or> c = CHR ''`'' \<or> c = CHR ''.''"
  by (auto simp: safeDb_def word_only_def list_all_iff split: option.splits if_splits)

text \<open>
  C2. A configured table name that consists of word characters is used, between
  backquotes; one that does not is replaced by \<^verbatim>\<open>cards\<close>, and the qualified name is then
  the one obtained with no table name configured, so nothing of the configured value
  reaches the text. The database name likewise: one of word characters becomes the
  prefix, any other gives no prefix, as if none were configured. In every case the
  qualified name consists of word characters, backquotes and dots only.
\<close>

theorem fqtn_safe:
  "(CARDS_TABLE_var e = Some t \<and> word_only t \<longrightarrow> fqtn e = safeDb e @ ''`'' @ t @ ''`'')
   \<and> (CARDS_TABLE_var e = Some t \<and> \<not> word_only t \<longrightarrow>
        fqtn e = safeDb e @ ''`cards`'' \<and> fqtn e = fqtn (e\<lparr>CARDS_TABLE_var := None\<rparr>))
   \<and> (CARDS_TABLE_var e = None \<longrightarrow> fqtn e = safeDb e @ ''`cards`'')
   \<and> (DB_NAME e = Some d \<and> word_only d \<longrightarrow> fqtn e = ''`'' @ d @ ''`.'' @ safeTable e)
   \<and> (DB_NAME e = Some d \<and> \<not> word_only d \<longrightarrow>
        fqtn e = safeTable e \<and> fqtn e = fqtn (e\<lparr>DB_NAME := None\<rparr>))
   \<and> (DB_NAME e = None \<longrightarrow> fqtn e = safeTable e)
   \<and> (\<forall>c \<in> set (fqtn e). word_char c \<or> c = CHR ''`'' \<or> c = CHR ''.'')"
proof (intro conjI impI ballI)
  assume "CARDS_TABLE_var e = Some t \<and> word_only t"
  then show "fqtn e = safeDb e @ ''`'' @ t @ ''`''"
    by (auto simp: fqtn_def safeTable_def CARDS_TABLE_def word_only_def)
next
  assume h: "CARDS_TABLE_var e = Some t \<and> \<not> word_only t"
  then show "fqtn e = safeDb e @ ''`cards`''"
    by (auto simp: fqtn_def safeTable_def CARDS_TABLE_def word_only_cards)
  from h show "fqtn e = fqtn (e\<lparr>CARDS_TABLE_var := None\<rparr>)"
    by (auto simp: fqtn_def safeDb_def safeTable_def CARDS_TABLE_def word_only_cards)
next
  assume "CARDS_TABLE_var e = None"
  then show "fqtn e = safeDb e @ ''`cards`''"
    by (simp add: fqtn_def safeTable_def CARDS_TABLE_def word_only_cards)
next
  assume "DB_NAME e = Some d \<and> word_only d"
  then show "fqtn e = ''`'' @ d @ ''`.'' @ safeTable e"
    by (auto simp: fqtn_def safeDb_def word_only_def)
next
  assume h: "DB_NAME e = Some d \<and> \<not> word_only d"
  then show "fqtn e = safeTable e" by (simp add: fqtn_def safeDb_def)
  from h show "fqtn e = fqtn (e\<lparr>DB_NAME := None\<rparr>)"
    by (simp add: fqtn_def safeDb_def safeTable_def CARDS_TABLE_def)
next
  assume "DB_NAME e = None"
  then show "fqtn e = safeTable e" by (simp add: fqtn_def safeDb_def)
next
  fix c assume "c \<in> set (fqtn e)"
  then show "word_char c \<or> c = CHR ''`'' \<or> c = CHR ''.''"
    using safeDb_chars [of c e] safeTable_chars [of c e] by (auto simp: fqtn_def)
qed

theorem fqtn_safe_witness:
  "fqtn \<lparr>DB_NAME = Some ''shop'', CARDS_TABLE_var = Some ''my_cards''\<rparr> = ''`shop`.`my_cards`''
   \<and> fqtn \<lparr>DB_NAME = Some ''shop; --'', CARDS_TABLE_var = Some ''cards` WHERE 1=1; --''\<rparr> = ''`cards`''"
proof -
  let ?good = "\<lparr>DB_NAME = Some ''shop'', CARDS_TABLE_var = Some ''my_cards''\<rparr>"
  let ?bad = "\<lparr>DB_NAME = Some ''shop; --'', CARDS_TABLE_var = Some ''cards` WHERE 1=1; --''\<rparr>"
  have g: "CARDS_TABLE_var ?good = Some ''my_cards'' \<and> word_only ''my_cards''"
          "DB_NAME ?good = Some ''shop'' \<and> word_only ''shop''"
    by (simp_all add: word_only_def word_char_def)
  have b: "CARDS_TABLE_var ?bad = Some ''cards` WHERE 1=1; --'' \<and> \<not> word_only ''cards` WHERE 1=1; --''"
          "DB_NAME ?bad = Some ''shop; --'' \<and> \<not> word_only ''shop; --''"
    by (simp_all add: word_only_def word_char_def)
  have sd: "safeDb ?good = ''`shop`.''" "safeDb ?bad = []"
    by (simp_all add: safeDb_def word_only_def word_char_def)
  from fqtn_safe [of ?good "''my_cards''" "''shop''"] g
       fqtn_safe [of ?bad "''cards` WHERE 1=1; --''" "''shop; --''"] b
  show ?thesis by (simp add: sd)
qed

section \<open>Update\<close>

text \<open>
  What Update does once validation has passed and the store has resolved the statement.
  With \<^verbatim>\<open>affectedRows\<close> other than \<^verbatim>\<open>0\<close> the answer is 200 and echoes the three values.
  With \<^verbatim>\<open>0\<close> the answer is 404 when the id converts to a string, as every string,
  number and boolean does; when the conversion throws, the \<^verbatim>\<open>catch\<close> block answers 500.
\<close>

lemma updatecard_resolved:
  assumes "truthy (supplied req ''id'')" and "truthy (supplied req ''card_name'')"
      and "truthy (supplied req ''card_pic'')"
      and "ex (db w) (''UPDATE '' @ fqtn e @ '' SET card_name = ?, card_pic = ? WHERE id = ?'')
             [supplied req ''card_name'', supplied req ''card_pic'', supplied req ''id'']
           = (Inr result, d)"
      and "get_prop result ''affectedRows'' = Inr n"
  shows "fst (updatecard e ex req w) =
           (if n = JNum 0 then
              (case to_string (supplied req ''id'') of
                 Inl t \<Rightarrow> Replied (Response 500 (message ''Server error - could not update card''))
               | Inr s \<Rightarrow> Replied (Response 404 (message (''No card found with id '' @ s))))
            else Replied (Response 200 (Json (JObj
                   [(''message'', JStr ''Card updated''), (''id'', supplied req ''id''),
                    (''card_name'', supplied req ''card_name''),
                    (''card_pic'', supplied req ''card_pic'')]))))"
  using assms unfolding updatecard_def Let_def get_prop_body
  by (simp add: falsy_def pool_execute_def updatecard_catch_def split: sum.splits)

lemma updatecard_printable_id:
  assumes "truthy (supplied req ''id'')" and "truthy (supplied req ''card_name'')"
      and "truthy (supplied req ''card_pic'')"
      and "ex (db w) (''UPDATE '' @ fqtn e @ '' SET card_name = ?, card_pic = ? WHERE id = ?'')
             [supplied req ''card_name'', supplied req ''card_pic'', supplied req ''id'']
           = (Inr result, d)"
      and "get_prop result ''affectedRows'' = Inr n"
      and "to_string (supplied req ''id'') = Inr s"
  shows "fst (updatecard e ex req w) =
           (if n = JNum 0 then Replied (Response 404 (message (''No card found with id '' @ s)))
            else Replied (Response 200 (Json (JObj
                   [(''message'', JStr ''Card updated''), (''id'', supplied req ''id''),
                    (''card_name'', supplied req ''card_name''),
                    (''card_pic'', supplied req ''card_pic'')]))))"
  using updatecard_resolved [of req ex w e result d n, OF assms(1-5)] assms(6) by simp

text \<open>
  C3. The request \<^verbatim>\<open>PUT /updatecard {"id":{"toString":1},"card_name":"Ace2","card_pic":"ace2.png"}\<close>
  has all three fields present and truthy, and the store reports no row affected. The
  message of the 404 is built with \<^verbatim>\<open>${id}\<close>, which throws for this id inside the
  \<^verbatim>\<open>try\<close> block, so the answer is 500 and not 404.
\<close>

theorem updatecard_unprintable_id_500:
  "fst (updatecard env0 (table_execute env0)
         \<lparr>http_method = ''PUT'', originalUrl = ''/updatecard'',
           body = JObj [(''id'', JObj [(''toString'', JNum 1)]),
                        (''card_name'', JStr ''Ace2''), (''card_pic'', JStr ''ace2.png'')],
           params = []\<rparr>
         (world0 [(1, JStr ''Ace'', JStr ''ace.png'')]))
   = Replied (Response 500 (message ''Server error - could not update card''))"
proof -
  let ?i = "JObj [(''toString'', JNum 1)]"
  let ?r = "\<lparr>http_method = ''PUT'', originalUrl = ''/updatecard'',
           body = JObj [(''id'', ?i), (''card_name'', JStr ''Ace2''), (''card_pic'', JStr ''ace2.png'')],
           params = []\<rparr>"
  let ?w = "world0 [(1::nat, JStr ''Ace'', JStr ''ace.png'')]"
  have s: "supplied ?r ''id'' = ?i" "supplied ?r ''card_name'' = JStr ''Ace2''"
          "supplied ?r ''card_pic'' = JStr ''ace2.png''"
    by (simp_all add: supplied_def)
  have ex: "table_execute env0 (db ?w)
              (''UPDATE '' @ fqtn env0 @ '' SET card_name = ?, card_pic = ? WHERE id = ?'')
              [supplied ?r ''card_name'', supplied ?r ''card_pic'', supplied ?r ''id'']
            = (Inr (header 0 0), [(1, JStr ''Ace'', JStr ''ace.png'')])"
    by (simp add: s table_execute_def world0_def selects_def)
  have g: "get_prop (header 0 0) ''affectedRows'' = Inr (JNum 0)"
    by (simp add: header_def)
  from updatecard_resolved [of ?r "table_execute env0" ?w env0 "header 0 0" _ "JNum 0", OF _ _ _ ex g]
  show ?thesis by (simp add: s)
qed

section \<open>Store errors\<close>

text \<open>
  When the store rejects the statement, List, Update and Delete answer 500 with a fixed
  message, in which nothing of the error appears; the error goes to the console only.
  These three handlers never let an exception escape, whatever the store does. Create
  builds the message of its 500 from \<^verbatim>\<open>card_name\<close>: it answers 500 when that value
  converts to a string and lets a TypeError escape when it does not, and this is the only
  way an exception leaves a handler.
\<close>

lemma allcards_store_error:
  assumes "ex (db w) (''SELECT * FROM '' @ fqtn e) [] = (Inl err, d)"
  shows "fst (allcards e ex req w) = Replied (Response 500 (message ''Server error for allcards''))"
  using assms by (simp add: allcards_def pool_execute_def)

lemma updatecard_store_error:
  assumes "truthy (supplied req ''id'')" and "truthy (supplied req ''card_name'')"
      and "truthy (supplied req ''card_pic'')"
      and "ex (db w) (''UPDATE '' @ fqtn e @ '' SET card_name = ?, card_pic = ? WHERE id = ?'')
             [supplied req ''card_name'', supplied req ''card_pic'', supplied req ''id'']
           = (Inl err, d)"
  shows "fst (updatecard e ex req w) =
           Replied (Response 500 (message ''Server error - could not update card''))"
  using assms unfolding updatecard_def Let_def get_prop_body
  by (simp add: falsy_def pool_execute_def updatecard_catch_def)

lemma deletecard_store_error:
  assumes "map_of (params req) ''id'' = Some s" and "s \<noteq> []"
      and "ex (db w) (''DELETE FROM '' @ fqtn e @ '' WHERE id = ?'') [JStr s] = (Inl err, d)"
  shows "fst (deletecard e ex req w) =
           Replied (Response 500 (message ''Server error - could not delete card''))"
  using assms by (simp add: deletecard_def Let_def falsy_def pool_execute_def deletecard_catch_def)

lemma addcard_store_error:
  assumes "truthy (supplied req ''card_name'')" and "truthy (supplied req ''card_pic'')"
      and "ex (db w) (''INSERT INTO '' @ fqtn e @ '' (card_name, card_pic) VALUES (?, ?)'')
             [supplied req ''card_name'', supplied req ''card_pic''] = (Inl err, d)"
  shows "fst (addcard e ex req w) =
           (case to_string (supplied req ''card_name'') of
              Inl t \<Rightarrow> Escaped t
            | Inr s \<Rightarrow> Replied (Response 500 (message (''Server error - could not add card '' @ s))))"
  using assms unfolding addcard_def Let_def get_prop_body
  by (simp add: falsy_def pool_execute_def addcard_catch_def Let_def split: sum.splits)

lemma allcards_replies: "fst (allcards e ex req w) \<noteq> Escaped t"
  by (cases "ex (db w) (''SELECT * FROM '' @ fqtn e) []")
     (simp add: allcards_def pool_execute_def split: sum.splits)

lemma updatecard_replies: "fst (updatecard e ex req w) \<noteq> Escaped t"
  unfolding updatecard_def Let_def get_prop_body
  by (cases "ex (db w) (''UPDATE '' @ fqtn e @ '' SET card_name = ?, card_pic = ? WHERE id = ?'')
                [supplied req ''card_name'', supplied req ''card_pic'', supplied req ''id'']")
     (simp add: pool_execute_def updatecard_catch_def split: sum.splits)

lemma deletecard_replies: "fst (deletecard e ex req w) \<noteq> Escaped t"
proof (cases "map_of (params req) ''id''")
  case None
  then show ?thesis by (simp add: deletecard_def falsy_def)
next
  case (Some s)
  then show ?thesis
    unfolding deletecard_def Let_def
    by (cases "ex (db w) (''DELETE FROM '' @ fqtn e @ '' WHERE id = ?'') [JStr s]")
       (simp add: falsy_def pool_execute_def deletecard_catch_def split: sum.splits)
qed

lemma addcard_escapes_iff:
  "(\<exists>t. fst (addcard e ex req w) = Escaped t) \<longleftrightarrow>
     truthy (supplied req ''card_name'') \<and> truthy (supplied req ''card_pic'')
     \<and> (\<exists>t. to_string (supplied req ''card_name'') = Inl t)"
  unfolding addcard_def Let_def get_prop_body
  by (cases "ex (db w) (''INSERT INTO '' @ fqtn e @ '' (card_name, card_pic) VALUES (?, ?)'')
                [supplied req ''card_name'', supplied req ''card_pic'']")
     (auto simp: falsy_def pool_execute_def addcard_catch_def Let_def split: sum.splits)

text \<open>
  C7. The request \<^verbatim>\<open>POST /addcard {"card_name":{"toString":1},"card_pic":"x"}\<close> passes
  validation. When the store rejects the INSERT, the \<^verbatim>\<open>catch\<close> block logs the error and
  then builds its message with \<^verbatim>\<open>${card_name}\<close>, which throws: no response is sent and
  the TypeError escapes the handler.
\<close>

theorem addcard_store_error_escapes:
  "addcard env0 refusing_execute
     \<lparr>http_method = ''POST'', originalUrl = ''/addcard'',
       body = JObj [(''card_name'', JObj [(''toString'', JNum 1)]), (''card_pic'', JStr ''x'')],
       params = []\<rparr>
     (world0 ())
   = (Escaped (TypeError ''Cannot convert object to primitive value''),
      \<lparr>db = (),
        calls = [(''INSERT INTO `cards` (card_name, card_pic) VALUES (?, ?)'',
                  [JObj [(''toString'', JNum 1)], JStr ''x''])],
        console = [(''[addcard] error:'', StoreError ''ECONNREFUSED'')]\<rparr>)"
  by (simp add: addcard_def js_or_def falsy_def pool_execute_def refusing_execute_def
        addcard_catch_def console_error_def world0_def
        fqtn_def safeDb_def safeTable_def env0_def CARDS_TABLE_def word_only_cards)

end
